theory Spec2Isabelle
  imports Main
begin

section \<open>chunked\_media/models.py: values, errors, model classes\<close>

text \<open>
  The exceptions that the functions of \<^verbatim>\<open>models.py\<close> raise or let through.
  \<open>ImproperlyConfigured\<close> is \<^verbatim>\<open>django.core.exceptions.ImproperlyConfigured\<close>, the
  others are Python's built-in exceptions; \<open>StorageError\<close> stands for whatever a storage
  backend raises when it cannot delete a resource, \<open>NoReverseMatch\<close> for a failing
  \<^verbatim>\<open>reverse()\<close>.
\<close>

datatype error =
    ImproperlyConfigured
  | AttributeError
  | ValueError
  | TypeError
  | LookupError
  | StorageError
  | NoReverseMatch

text \<open>
  The concrete record types of the process: the built-in \<^verbatim>\<open>class Media(AbstractMedia)\<close>;
  a host application's own concretisation of \<^verbatim>\<open>AbstractMedia\<close>, identified by its
  application label and model name; and a host class that inherits from a concrete class
  (multi-table inheritance), identified by its label, its name and that parent class.
\<close>

datatype model_class =
    Media
  | HostModel string string
  | HostChild string string model_class

text \<open>
  A Django setting holds an arbitrary Python object. These are the kinds of value the
  attribute access \<^verbatim>\<open>settings.CHUNKED_MEDIA_MODEL.split\<close> tells apart.
\<close>

datatype pyval =
    PyNone
  | PyBool bool
  | PyInt int
  | PyStr string
  | PyBytes string
  | PyList "pyval list"

section \<open>get\_media\_model\<close>

text \<open>
  \<^verbatim>\<open>str.split(sep)\<close> with a one-character separator: the string is cut at every
  occurrence of the separator, empty pieces are kept, and a string without the separator
  gives a one-element list. \<open>acc\<close> holds the current piece, reversed.
\<close>

fun split_acc :: "char \<Rightarrow> string \<Rightarrow> string \<Rightarrow> string list" where
  "split_acc sep acc [] = [rev acc]"
| "split_acc sep acc (x # xs) =
     (if x = sep then rev acc # split_acc sep [] xs else split_acc sep (x # acc) xs)"

definition str_split :: "string \<Rightarrow> char \<Rightarrow> string list" where
  "str_split s sep = split_acc sep [] s"

text \<open>
  Whether looking up the attribute \<^verbatim>\<open>split\<close> on a value succeeds: \<^verbatim>\<open>str\<close> and
  \<^verbatim>\<open>bytes\<close> have the method, \<^verbatim>\<open>None\<close>, booleans, integers and lists do not.
\<close>

fun has_split :: "pyval \<Rightarrow> bool" where
  "has_split (PyStr s) = True"
| "has_split (PyBytes b) = True"
| "has_split v = False"

text \<open>
  \<^verbatim>\<open>value.split('.')\<close>, the argument being a \<^verbatim>\<open>str\<close>: a value without the attribute
  raises \<open>AttributeError\<close>; \<^verbatim>\<open>bytes.split\<close> refuses a \<^verbatim>\<open>str\<close> separator with
  \<open>TypeError\<close>.
\<close>

fun py_split :: "pyval \<Rightarrow> error + string list" where
  "py_split (PyStr s) = Inr (str_split s (CHR ''.''))"
| "py_split (PyBytes b) = Inl TypeError"
| "py_split v = Inl AttributeError"

text \<open>
  The tuple assignment \<^verbatim>\<open>app_label, model_name = parts\<close>: any length other than two
  raises \<open>ValueError\<close>.
\<close>

fun unpack2 :: "string list \<Rightarrow> error + string \<times> string" where
  "unpack2 [a, b] = Inr (a, b)"
| "unpack2 parts = Inl ValueError"

text \<open>
  The body of the \<^verbatim>\<open>try\<close> block, line 137. The setting is \<open>None\<close> when the name
  \<^verbatim>\<open>CHUNKED_MEDIA_MODEL\<close> is not defined in the settings; reading it then raises
  \<open>AttributeError\<close>.
\<close>

definition split_setting :: "pyval option \<Rightarrow> error + string \<times> string" where
  "split_setting CHUNKED_MEDIA_MODEL =
     (case CHUNKED_MEDIA_MODEL of
        None \<Rightarrow> Inl AttributeError
      | Some v \<Rightarrow> (case py_split v of Inl e \<Rightarrow> Inl e | Inr parts \<Rightarrow> unpack2 parts))"

text \<open>
  \<^verbatim>\<open>get_media_model\<close>, lines 132 to 149. The application registry's
  \<^verbatim>\<open>apps.get_model(app_label, model_name)\<close> is a parameter: it may raise, return
  \<^verbatim>\<open>None\<close>, or return a class. The two \<^verbatim>\<open>except\<close> clauses cover the \<^verbatim>\<open>try\<close> block
  only; an exception of the registry call on line 143 is not caught.
\<close>

definition get_media_model ::
  "(string \<Rightarrow> string \<Rightarrow> error + model_class option) \<Rightarrow> pyval option \<Rightarrow> error + model_class"
where
  "get_media_model apps_get_model CHUNKED_MEDIA_MODEL =
     (case split_setting CHUNKED_MEDIA_MODEL of
        Inl e \<Rightarrow>
          (if e = AttributeError then Inr Media
           else if e = ValueError then Inl ImproperlyConfigured
           else Inl e)
      | Inr (app_label, model_name) \<Rightarrow>
          (case apps_get_model app_label model_name of
             Inl e \<Rightarrow> Inl e
           | Inr None \<Rightarrow> Inl ImproperlyConfigured
           | Inr (Some media_model) \<Rightarrow> Inr media_model))"

text \<open>
  The registry of the framework this module runs on (\<^verbatim>\<open>django.apps.apps\<close>, Django 1.11
  to 3.2, the versions that have both \<^verbatim>\<open>wagtail.core\<close> and \<^verbatim>\<open>ugettext_lazy\<close>):
  \<^verbatim>\<open>Apps.get_model\<close> returns the registered class and raises \<open>LookupError\<close> when the
  application label or the model name is unknown. It never returns \<^verbatim>\<open>None\<close>. The map
  \<open>registered\<close> gives, for a label and a model name, the installed class the
  registry finds under them, if any (the registry's own matching of names, which ignores
  the case of the model name, is inside the map).
\<close>

definition django_get_model ::
  "(string \<times> string \<rightharpoonup> model_class) \<Rightarrow> string \<Rightarrow> string \<Rightarrow> error + model_class option"
where
  "django_get_model registered app_label model_name =
     (case registered (app_label, model_name) of
        None \<Rightarrow> Inl LookupError
      | Some m \<Rightarrow> Inr (Some m))"

section \<open>The record and its derived accessors\<close>

text \<open>
  A \<^verbatim>\<open>FieldFile\<close>, the value of a \<^verbatim>\<open>FileField\<close> attribute: the reference to a stored
  binary resource. Its \<open>name\<close> is the resource's path in the storage; it is \<^verbatim>\<open>None\<close>
  or the empty string when no resource is associated.
\<close>

record fieldfile =
  name :: "string option"

text \<open>
  An instance of a concrete record type. \<open>model\<close> is the instance's class, \<open>pk\<close> its
  primary key (\<^verbatim>\<open>id\<close>); the other fields are those of \<^verbatim>\<open>AbstractMedia\<close>, lines 47 to 53
  (\<open>file_field\<close> is \<^verbatim>\<open>file\<close>, \<open>media_type\<close> is \<^verbatim>\<open>type\<close>).
\<close>

record media =
  model :: model_class
  pk :: nat
  title :: string
  file_field :: fieldfile
  media_type :: string
  width :: "nat option"
  height :: "nat option"
  thumbnail :: fieldfile

text \<open>\<^verbatim>\<open>FieldFile.__bool__\<close>: \<^verbatim>\<open>bool(self.name)\<close>.\<close>

definition fieldfile_bool :: "fieldfile \<Rightarrow> bool" where
  "fieldfile_bool f = (case name f of None \<Rightarrow> False | Some n \<Rightarrow> n \<noteq> [])"

text \<open>
  \<^verbatim>\<open>str.rfind(c)\<close>: the highest index holding \<open>c\<close>, or \<open>-1\<close>. The scan runs from the
  left and remembers the last hit.
\<close>

fun find_last :: "char \<Rightarrow> string \<Rightarrow> nat \<Rightarrow> int \<Rightarrow> int" where
  "find_last c [] i hit = hit"
| "find_last c (x # xs) i hit = find_last c xs (Suc i) (if x = c then int i else hit)"

definition rfind :: "string \<Rightarrow> char \<Rightarrow> int" where
  "rfind p c = find_last c p 0 (- 1)"

text \<open>
  \<^verbatim>\<open>posixpath.basename\<close>: \<^verbatim>\<open>i = p.rfind('/') + 1; return p[i:]\<close>.
\<close>

definition basename :: "string \<Rightarrow> string" where
  "basename p = drop (nat (rfind p (CHR ''/'') + 1)) p"

text \<open>
  The loop of \<^verbatim>\<open>genericpath._splitext\<close> that skips leading dots: it answers whether
  some character between \<open>filenameIndex\<close> and \<open>dotIndex\<close> is not a dot, which is when
  the function returns the split at \<open>dotIndex\<close>.
\<close>

function splitext_scan :: "string \<Rightarrow> nat \<Rightarrow> nat \<Rightarrow> bool" where
  "splitext_scan p filenameIndex dotIndex =
     (if filenameIndex < dotIndex
      then (if take 1 (drop filenameIndex p) \<noteq> ''.'' then True
            else splitext_scan p (Suc filenameIndex) dotIndex)
      else False)"
  by pat_completeness auto
termination
  by (relation "measure (\<lambda>(p, filenameIndex, dotIndex). dotIndex - filenameIndex)") auto

declare splitext_scan.simps [simp del]

text \<open>
  \<^verbatim>\<open>posixpath.splitext\<close>, that is \<^verbatim>\<open>_splitext(p, '/', None, '.')\<close>: the extension
  starts at the last dot, provided that dot comes after the last slash and is not one of
  the dots the file name begins with; otherwise the extension is empty.
\<close>

definition splitext :: "string \<Rightarrow> string \<times> string" where
  "splitext p =
     (let sepIndex = rfind p (CHR ''/'');
          dotIndex = rfind p (CHR ''.'')
      in if dotIndex > sepIndex \<and> splitext_scan p (nat (sepIndex + 1)) (nat dotIndex)
         then (take (nat dotIndex) p, drop (nat dotIndex) p)
         else (p, []))"

text \<open>
  \<^verbatim>\<open>filename\<close>, line 82: \<^verbatim>\<open>os.path.basename(self.file.name)\<close>; \<^verbatim>\<open>os.fspath(None)\<close>
  raises \<open>TypeError\<close>.
\<close>

definition filename :: "media \<Rightarrow> error + string" where
  "filename self =
     (case name (file_field self) of None \<Rightarrow> Inl TypeError | Some n \<Rightarrow> Inr (basename n))"

text \<open>\<^verbatim>\<open>thumbnail_filename\<close>, line 86.\<close>

definition thumbnail_filename :: "media \<Rightarrow> error + string" where
  "thumbnail_filename self =
     (case name (thumbnail self) of None \<Rightarrow> Inl TypeError | Some n \<Rightarrow> Inr (basename n))"

text \<open>\<^verbatim>\<open>file_extension\<close>, line 90: \<^verbatim>\<open>os.path.splitext(self.filename)[1][1:]\<close>.\<close>

definition file_extension :: "media \<Rightarrow> error + string" where
  "file_extension self =
     (case filename self of Inl e \<Rightarrow> Inl e | Inr fn \<Rightarrow> Inr (drop 1 (snd (splitext fn))))"

text \<open>
  \<^verbatim>\<open>url\<close>, line 95: \<^verbatim>\<open>self.file.url\<close>. The framework's \<^verbatim>\<open>FieldFile.url\<close> first
  requires a file (\<^verbatim>\<open>if not self: raise ValueError\<close>) and then asks the storage backend
  for the address of \<open>name\<close>. The backend's \<^verbatim>\<open>url(name)\<close> is a parameter: it may raise,
  or return a string or \<^verbatim>\<open>None\<close>.
\<close>

definition url :: "(string \<Rightarrow> error + string option) \<Rightarrow> media \<Rightarrow> error + string option" where
  "url storage_url self =
     (if fieldfile_bool (file_field self)
      then (case name (file_field self) of None \<Rightarrow> Inl ValueError | Some n \<Rightarrow> storage_url n)
      else Inl ValueError)"

text \<open>
  Python's \<^verbatim>\<open>a or b\<close> where \<open>a\<close> is a string or \<^verbatim>\<open>None\<close> and \<open>b\<close> a string: \<open>a\<close> when
  it is truthy (not \<^verbatim>\<open>None\<close>, not empty), else \<open>b\<close>.
\<close>

definition or_else :: "string option \<Rightarrow> string \<Rightarrow> string" where
  "or_else a b = (case a of None \<Rightarrow> b | Some s \<Rightarrow> if s \<noteq> [] then s else b)"

text \<open>
  \<^verbatim>\<open>sources\<close>, lines 98 to 102. The dictionary is an association list in the order of
  the literal. \<open>reverse_index\<close> is the outcome of \<^verbatim>\<open>reverse('chunked_media:index')\<close>,
  evaluated only when the address is falsy; \<open>guess_type\<close> is
  \<^verbatim>\<open>mimetypes.guess_type(...)[0]\<close>, with \<open>None\<close> for an unknown type. The value of
  \<^verbatim>\<open>'src'\<close> is computed first, so its exception comes first.
\<close>

definition sources ::
  "(string \<Rightarrow> error + string option) \<Rightarrow> error + string \<Rightarrow> (string \<Rightarrow> string option) \<Rightarrow>
     media \<Rightarrow> error + (string \<times> string) list list"
where
  "sources storage_url reverse_index guess_type self =
     (case url storage_url self of
        Inl e \<Rightarrow> Inl e
      | Inr u \<Rightarrow>
          (case (case u of None \<Rightarrow> reverse_index
                 | Some address \<Rightarrow> if address \<noteq> [] then Inr address else reverse_index) of
             Inl e \<Rightarrow> Inl e
           | Inr src \<Rightarrow>
               (case filename self of
                  Inl e \<Rightarrow> Inl e
                | Inr fn \<Rightarrow>
                    Inr [[(''src'', src),
                          (''type'', or_else (guess_type fn) ''application/octet-stream'')]])))"

section \<open>Storage, the deletion hook and its dispatch\<close>

text \<open>
  What a run does to the outside world, in the order it does it: a deletion asked of the
  storage backend (\<^verbatim>\<open>storage.delete(name)\<close>), a model-level save of an instance
  (\<^verbatim>\<open>instance.save()\<close>), the removal of an instance's row.
\<close>

datatype event =
    StorageDelete string
  | InstanceSave nat
  | RowRemoved model_class nat

text \<open>
  The world the hook acts on: the resources the storage backend holds, the names on which
  the backend's \<^verbatim>\<open>delete\<close> raises, the rows of the tables, and the trace of events.
\<close>

record world =
  stored :: "string set"
  undeletable :: "string set"
  rows :: "(model_class \<times> nat) set"
  trace :: "event list"

text \<open>
  The storage backend's \<^verbatim>\<open>delete(name)\<close>: the attempt is recorded; it either raises or
  removes the resource (removing an absent resource changes nothing).
\<close>

definition storage_delete :: "string \<Rightarrow> world \<Rightarrow> error option \<times> world" where
  "storage_delete n w =
     (let w' = w\<lparr>trace := trace w @ [StorageDelete n]\<rparr>
      in if n \<in> undeletable w then (Some StorageError, w')
         else (None, w'\<lparr>stored := stored w - {n}\<rparr>))"

text \<open>
  The framework's \<^verbatim>\<open>FieldFile.delete(save)\<close>:
  \<^verbatim>\<open>if not self: return\<close>, then \<^verbatim>\<open>self.storage.delete(self.name)\<close>, then
  \<^verbatim>\<open>self.name = None\<close>, then \<^verbatim>\<open>if save: self.instance.save()\<close>. \<open>owner\<close> is the
  primary key of the instance the field belongs to. An exception of the storage leaves
  the reference as it was. Closing an open file handle, which the method does first, has
  no part in the model.
\<close>

definition fieldfile_delete ::
  "bool \<Rightarrow> nat \<Rightarrow> fieldfile \<Rightarrow> world \<Rightarrow> error option \<times> fieldfile \<times> world"
where
  "fieldfile_delete save owner f w =
     (if \<not> fieldfile_bool f then (None, f, w)
      else
        (case name f of
           None \<Rightarrow> (None, f, w)
         | Some n \<Rightarrow>
             (case storage_delete n w of
                (Some e, w') \<Rightarrow> (Some e, f, w')
              | (None, w') \<Rightarrow>
                  (None, f\<lparr>name := None\<rparr>,
                   if save then w'\<lparr>trace := trace w' @ [InstanceSave owner]\<rparr> else w'))))"

text \<open>
  \<^verbatim>\<open>media_delete\<close>, lines 154 to 157: \<^verbatim>\<open>instance.file.delete(False)\<close>, then
  \<^verbatim>\<open>instance.thumbnail.delete(False)\<close>. An exception of the first call ends the hook
  before the second.
\<close>

definition media_delete ::
  "model_class \<Rightarrow> media \<Rightarrow> world \<Rightarrow> error option \<times> media \<times> world"
where
  "media_delete sender inst w =
     (case fieldfile_delete False (pk inst) (file_field inst) w of
        (Some e, f, w1) \<Rightarrow> (Some e, inst, w1)
      | (None, f, w1) \<Rightarrow>
          (case fieldfile_delete False (pk inst) (thumbnail inst) w1 of
             (Some e, t, w2) \<Rightarrow> (Some e, inst\<lparr>file_field := f\<rparr>, w2)
           | (None, t, w2) \<Rightarrow> (None, inst\<lparr>file_field := f, thumbnail := t\<rparr>, w2)))"

text \<open>
  A receiver of the \<^verbatim>\<open>pre_delete\<close> signal, and the receivers this module connects: the
  decorator on line 153, \<^verbatim>\<open>@receiver(pre_delete, sender=Media)\<close>, connects
  \<^verbatim>\<open>media_delete\<close> for the sender \<open>Media\<close>. A receiver connected without a sender
  would carry \<open>None\<close>.
\<close>

type_synonym receiver = "model_class \<Rightarrow> media \<Rightarrow> world \<Rightarrow> error option \<times> media \<times> world"

definition pre_delete_receivers :: "(model_class option \<times> receiver) list" where
  "pre_delete_receivers = [(Some Media, media_delete)]"

text \<open>
  The framework's \<^verbatim>\<open>Signal.send(sender, instance)\<close>: every connected receiver whose
  sender is unset or is the sending class is called in turn; an exception of a receiver
  propagates.
\<close>

fun send ::
  "(model_class option \<times> receiver) list \<Rightarrow> model_class \<Rightarrow> media \<Rightarrow> world \<Rightarrow>
     error option \<times> media \<times> world"
where
  "send [] sender inst w = (None, inst, w)"
| "send ((wanted, r) # rs) sender inst w =
     (if wanted = None \<or> wanted = Some sender
      then (case r sender inst w of
              (Some e, inst', w') \<Rightarrow> (Some e, inst', w')
            | (None, inst', w') \<Rightarrow> send rs sender inst' w')
      else send rs sender inst w)"

text \<open>
  The concrete classes a class inherits from, nearest first. Each of them has a table of
  its own, holding one row for the instance under the same primary key.
\<close>

fun parents_of :: "model_class \<Rightarrow> model_class list" where
  "parents_of (HostChild app_label model_name parent) = parent # parents_of parent"
| "parents_of c = []"

text \<open>The removal of the row with key \<open>k\<close> from the table of class \<open>c\<close>.\<close>

definition remove_row :: "model_class \<Rightarrow> nat \<Rightarrow> world \<Rightarrow> world" where
  "remove_row c k w =
     w\<lparr>rows := rows w - {(c, k)}, trace := trace w @ [RowRemoved c k]\<rparr>"

fun remove_rows :: "model_class list \<Rightarrow> nat \<Rightarrow> world \<Rightarrow> world" where
  "remove_rows [] k w = w"
| "remove_rows (c # cs) k w = remove_rows cs k (remove_row c k w)"

text \<open>
  \<^verbatim>\<open>pre_delete\<close> for the parent rows of an instance: for each parent class the signal is
  sent with that class as sender and the parent row's object as instance. That object is
  the framework's own (\<^verbatim>\<open>child.media_ptr\<close>), with the fields of the instance, so what a
  receiver does to it does not reach the instance being deleted.
\<close>

fun send_parents :: "model_class list \<Rightarrow> media \<Rightarrow> world \<Rightarrow> error option \<times> world" where
  "send_parents [] inst w = (None, w)"
| "send_parents (c # cs) inst w =
     (case send pre_delete_receivers c (inst\<lparr>model := c\<rparr>) w of
        (Some e, parent_obj, w') \<Rightarrow> (Some e, w')
      | (None, parent_obj, w') \<Rightarrow> send_parents cs inst w')"

text \<open>
  The framework's \<^verbatim>\<open>Model.delete()\<close> on one instance. The collector gathers the instance
  and its parent rows; \<^verbatim>\<open>pre_delete\<close> is sent for each of them, the instance first, with
  the class of the row as sender; then the rows are removed, the instance's own first. An
  exception of a receiver leaves every row in place. Cascading to related objects has no
  part in the model.
\<close>

definition model_delete :: "media \<Rightarrow> world \<Rightarrow> error option \<times> media \<times> world" where
  "model_delete inst w =
     (case send pre_delete_receivers (model inst) inst w of
        (Some e, inst', w') \<Rightarrow> (Some e, inst', w')
      | (None, inst', w') \<Rightarrow>
          (case send_parents (parents_of (model inst)) inst w' of
             (Some e, w'') \<Rightarrow> (Some e, inst', w'')
           | (None, w'') \<Rightarrow>
               (None, inst', remove_rows (model inst # parents_of (model inst)) (pk inst) w'')))"

text \<open>
  An instance with the given class, key, file reference and thumbnail reference, the other
  fields filled in; used for the concrete examples.
\<close>

definition media_of :: "model_class \<Rightarrow> nat \<Rightarrow> string option \<Rightarrow> string option \<Rightarrow> media" where
  "media_of cls k f t =
     \<lparr>model = cls, pk = k, title = ''untitled'', file_field = \<lparr>name = f\<rparr>,
      media_type = ''audio'', width = None, height = None, thumbnail = \<lparr>name = t\<rparr>\<rparr>"

text \<open>
  Concrete collaborators for the examples: a registry with one installed host model; a
  storage backend that serves every resource under \<^verbatim>\<open>/media/\<close>, and one that has no
  address for any resource; a type guesser that knows \<open>song.mp3\<close> only.
\<close>

definition host_registry :: "string \<times> string \<rightharpoonup> model_class" where
  "host_registry = [(''myapp'', ''MyMedia'') \<mapsto> HostModel ''myapp'' ''MyMedia'']"

definition media_url :: "string \<Rightarrow> error + string option" where
  "media_url n = Inr (Some (''/media/'' @ n))"

definition no_url :: "string \<Rightarrow> error + string option" where
  "no_url n = Inr None"

definition guess_mp3 :: "string \<Rightarrow> string option" where
  "guess_mp3 fn = (if fn = ''song.mp3'' then Some ''audio/mpeg'' else None)"

section \<open>Properties of the definitions\<close>

subsection \<open>Properties of the split\<close>

lemma split_acc_length: "length (split_acc sep acc s) = Suc (count_list s sep)"
  by (induction s arbitrary: acc) simp_all

lemma split_acc_no_sep: "sep \<notin> set s \<Longrightarrow> split_acc sep acc s = [rev acc @ s]"
  by (induction s arbitrary: acc) auto

lemma split_acc_one_sep:
  "sep \<notin> set a \<Longrightarrow> split_acc sep acc (a @ sep # n) = (rev acc @ a) # split_acc sep [] n"
  by (induction a arbitrary: acc) auto

lemma count_list_0_notin: "count_list xs c = 0 \<Longrightarrow> c \<notin> set xs"
  by (induction xs) (auto split: if_splits)

lemma str_split_pair:
  assumes "count_list (a @ sep # n) sep = 1"
  shows "str_split (a @ sep # n) sep = [a, n]"
proof -
  from assms have "count_list a sep = 0" and "count_list n sep = 0"
    by simp_all
  then have a: "sep \<notin> set a" and n: "sep \<notin> set n"
    by (simp_all add: count_list_0_notin)
  show ?thesis
    unfolding str_split_def
    by (simp add: split_acc_one_sep [OF a] split_acc_no_sep [OF n])
qed

lemma split_setting_pair:
  assumes "s = a @ ''.'' @ n" and "count_list s (CHR ''.'') = 1"
  shows "split_setting (Some (PyStr s)) = Inr (a, n)"
proof -
  from assms have "str_split s (CHR ''.'') = [a, n]"
    using str_split_pair [of a "CHR ''.''" n] by simp
  then show ?thesis
    by (simp add: split_setting_def)
qed

lemma unpack2_length: "length parts \<noteq> 2 \<Longrightarrow> unpack2 parts = Inl ValueError"
  by (cases parts rule: unpack2.cases) simp_all

lemma split_setting_malformed:
  assumes "count_list s (CHR ''.'') \<noteq> 1"
  shows "split_setting (Some (PyStr s)) = Inl ValueError"
proof -
  have "length (str_split s (CHR ''.'')) \<noteq> 2"
    using assms by (simp add: str_split_def split_acc_length)
  then show ?thesis
    by (simp add: split_setting_def unpack2_length)
qed

lemma split_setting_no_attribute:
  "\<not> has_split v \<Longrightarrow> split_setting (Some v) = Inl AttributeError"
  by (cases v) (simp_all add: split_setting_def)

subsection \<open>Properties of the path functions\<close>

lemma find_last_absent: "c \<notin> set p \<Longrightarrow> find_last c p i hit = hit"
  by (induction p arbitrary: i hit) auto

lemma find_last_lower: "- 1 \<le> hit \<Longrightarrow> - 1 \<le> find_last c p i hit"
  by (induction p arbitrary: i hit) auto

lemma rfind_absent: "c \<notin> set p \<Longrightarrow> rfind p c = - 1"
  by (simp add: rfind_def find_last_absent)

lemma rfind_lower: "- 1 \<le> rfind p c"
  by (simp add: rfind_def find_last_lower)

lemma splitext_no_dot: "CHR ''.'' \<notin> set p \<Longrightarrow> splitext p = (p, [])"
  using rfind_lower [of p "CHR ''/''"]
  by (simp add: splitext_def rfind_absent Let_def)

lemma splitext_clip_mp4: "splitext ''clip.mp4'' = (''clip'', ''.mp4'')"
  by (simp add: splitext_def rfind_def Let_def splitext_scan.simps)

lemma find_last_append:
  "find_last c (xs @ ys) i hit = find_last c ys (i + length xs) (find_last c xs i hit)"
  by (induction xs arbitrary: i hit) simp_all

lemma rfind_last_occurrence: "c \<notin> set ys \<Longrightarrow> rfind (xs @ c # ys) c = int (length xs)"
  by (simp add: rfind_def find_last_append find_last_absent)

lemma basename_no_sep: "CHR ''/'' \<notin> set (basename p)"
proof (cases "CHR ''/'' \<in> set p")
  case True
  then obtain xs ys where p: "p = xs @ CHR ''/'' # ys" and ys: "CHR ''/'' \<notin> set ys"
    using split_list_last by fastforce
  have "nat (rfind p (CHR ''/'') + 1) = Suc (length xs)"
    by (simp add: p rfind_last_occurrence [OF ys])
  then have "basename p = ys"
    by (simp add: basename_def p)
  with ys show ?thesis by simp
next
  case False
  then show ?thesis
    by (simp add: basename_def rfind_absent)
qed

lemma splitext_scan_iff:
  "splitext_scan p i d = (\<exists>j. i \<le> j \<and> j < d \<and> take 1 (drop j p) \<noteq> ''.'')"
proof (induction p i d rule: splitext_scan.induct)
  case (1 p i d)
  show ?case
  proof (cases "i < d")
    case False
    then have "\<not> splitext_scan p i d"
      by (subst splitext_scan.simps) simp
    moreover from False have "\<not> (\<exists>j. i \<le> j \<and> j < d \<and> take 1 (drop j p) \<noteq> ''.'')"
      by auto
    ultimately show ?thesis by blast
  next
    case True
    show ?thesis
    proof (cases "take 1 (drop i p) \<noteq> ''.''")
      case True
      with \<open>i < d\<close> have "splitext_scan p i d"
        by (subst splitext_scan.simps) simp
      moreover from True \<open>i < d\<close> have "\<exists>j. i \<le> j \<and> j < d \<and> take 1 (drop j p) \<noteq> ''.''"
        by blast
      ultimately show ?thesis by blast
    next
      case False
      with \<open>i < d\<close> have "splitext_scan p i d = splitext_scan p (Suc i) d"
        by (subst splitext_scan.simps) simp
      also have "\<dots> = (\<exists>j. Suc i \<le> j \<and> j < d \<and> take 1 (drop j p) \<noteq> ''.'')"
        using "1.IH" [OF \<open>i < d\<close>] False by blast
      also have "\<dots> = (\<exists>j. i \<le> j \<and> j < d \<and> take 1 (drop j p) \<noteq> ''.'')"
      proof
        assume "\<exists>j. Suc i \<le> j \<and> j < d \<and> take 1 (drop j p) \<noteq> ''.''"
        then obtain j where "Suc i \<le> j" "j < d" "take 1 (drop j p) \<noteq> ''.''" by blast
        then have "i \<le> j \<and> j < d \<and> take 1 (drop j p) \<noteq> ''.''" by simp
        then show "\<exists>j. i \<le> j \<and> j < d \<and> take 1 (drop j p) \<noteq> ''.''" ..
      next
        assume "\<exists>j. i \<le> j \<and> j < d \<and> take 1 (drop j p) \<noteq> ''.''"
        then obtain j where j: "i \<le> j" "j < d" "take 1 (drop j p) \<noteq> ''.''" by blast
        with False have "j \<noteq> i" by blast
        with j have "Suc i \<le> j \<and> j < d \<and> take 1 (drop j p) \<noteq> ''.''" by simp
        then show "\<exists>j. Suc i \<le> j \<and> j < d \<and> take 1 (drop j p) \<noteq> ''.''" ..
      qed
      finally show ?thesis .
    qed
  qed
qed

lemma splitext_scan_prefix:
  "splitext_scan (xs @ zs) 0 (length xs) = (\<exists>x \<in> set xs. x \<noteq> CHR ''.'')"
proof -
  have nth: "take 1 (drop j (xs @ zs)) = [xs ! j]" if "j < length xs" for j
  proof -
    from that have "drop j xs = xs ! j # drop (Suc j) xs"
      by (simp add: Cons_nth_drop_Suc)
    with that show ?thesis by simp
  qed
  have "splitext_scan (xs @ zs) 0 (length xs) =
      (\<exists>j. j < length xs \<and> take 1 (drop j (xs @ zs)) \<noteq> ''.'')"
    by (simp add: splitext_scan_iff)
  also have "\<dots> = (\<exists>j. j < length xs \<and> xs ! j \<noteq> CHR ''.'')"
    using nth by auto
  also have "\<dots> = (\<exists>x \<in> set xs. x \<noteq> CHR ''.'')"
    by (metis in_set_conv_nth)
  finally show ?thesis .
qed

lemma no_dot_after_dropWhile:
  "CHR ''.'' \<notin> set ys \<Longrightarrow> CHR ''.'' \<notin> set (dropWhile P ys)"
  using set_dropWhileD by fastforce

lemma dot_after_leading_dots:
  assumes "CHR ''.'' \<notin> set ys"
  shows "(CHR ''.'' \<in> set (dropWhile (\<lambda>c. c = CHR ''.'') (xs @ CHR ''.'' # ys))) =
         (\<exists>x \<in> set xs. x \<noteq> CHR ''.'')"
proof (cases "\<forall>x \<in> set xs. x = CHR ''.''")
  case True
  then have "dropWhile (\<lambda>c. c = CHR ''.'') (xs @ CHR ''.'' # ys) =
      dropWhile (\<lambda>c. c = CHR ''.'') ys"
    by (simp add: dropWhile_append)
  with True no_dot_after_dropWhile [OF assms] show ?thesis
    by simp
next
  case False
  then have "dropWhile (\<lambda>c. c = CHR ''.'') (xs @ CHR ''.'' # ys) =
      dropWhile (\<lambda>c. c = CHR ''.'') xs @ CHR ''.'' # ys"
    by (auto simp: dropWhile_append)
  with False show ?thesis by auto
qed

lemma after_last_dot:
  assumes "CHR ''.'' \<notin> set ys"
  shows "rev (takeWhile (\<lambda>c. c \<noteq> CHR ''.'') (rev (xs @ CHR ''.'' # ys))) = ys"
proof -
  have "takeWhile (\<lambda>c. c \<noteq> CHR ''.'') (rev ys @ CHR ''.'' # rev xs) =
      takeWhile (\<lambda>c. c \<noteq> CHR ''.'') (rev ys)"
    by (simp add: takeWhile_tail)
  also have "\<dots> = rev ys"
    using assms by (auto simp: takeWhile_eq_all_conv)
  finally show ?thesis by simp
qed

lemma splitext_name:
  assumes "CHR ''/'' \<notin> set fn"
  shows "snd (splitext fn) =
     (if CHR ''.'' \<in> set (dropWhile (\<lambda>c. c = CHR ''.'') fn)
      then CHR ''.'' # rev (takeWhile (\<lambda>c. c \<noteq> CHR ''.'') (rev fn))
      else [])"
proof (cases "CHR ''.'' \<in> set fn")
  case False
  with no_dot_after_dropWhile [of fn] show ?thesis
    by (simp add: splitext_no_dot)
next
  case True
  then obtain xs ys where fn: "fn = xs @ CHR ''.'' # ys" and ys: "CHR ''.'' \<notin> set ys"
    using split_list_last by fastforce
  have sep: "rfind fn (CHR ''/'') = - 1"
    using assms by (simp add: rfind_absent)
  have dot: "rfind fn (CHR ''.'') = int (length xs)"
    by (simp add: fn rfind_last_occurrence [OF ys])
  have scan: "splitext_scan fn 0 (length xs) = (\<exists>x \<in> set xs. x \<noteq> CHR ''.'')"
    unfolding fn by (rule splitext_scan_prefix)
  have ext: "snd (splitext fn) =
      (if \<exists>x \<in> set xs. x \<noteq> CHR ''.'' then drop (length xs) fn else [])"
    by (simp add: splitext_def sep dot scan Let_def)
  have "drop (length xs) fn = CHR ''.'' # ys"
    by (simp add: fn)
  with ext have "snd (splitext fn) =
      (if \<exists>x \<in> set xs. x \<noteq> CHR ''.'' then CHR ''.'' # ys else [])"
    by simp
  moreover have "(CHR ''.'' \<in> set (dropWhile (\<lambda>c. c = CHR ''.'') fn)) =
      (\<exists>x \<in> set xs. x \<noteq> CHR ''.'')"
    unfolding fn by (rule dot_after_leading_dots [OF ys])
  moreover have "rev (takeWhile (\<lambda>c. c \<noteq> CHR ''.'') (rev fn)) = ys"
    unfolding fn by (rule after_last_dot [OF ys])
  ultimately show ?thesis by simp
qed

lemma file_extension_name:
  assumes "filename self = Inr fn"
  shows "file_extension self =
     Inr (if CHR ''.'' \<in> set (dropWhile (\<lambda>c. c = CHR ''.'') fn)
          then rev (takeWhile (\<lambda>c. c \<noteq> CHR ''.'') (rev fn))
          else [])"
proof -
  from assms have "CHR ''/'' \<notin> set fn"
    by (auto simp: filename_def basename_no_sep split: option.splits)
  then have "snd (splitext fn) =
     (if CHR ''.'' \<in> set (dropWhile (\<lambda>c. c = CHR ''.'') fn)
      then CHR ''.'' # rev (takeWhile (\<lambda>c. c \<noteq> CHR ''.'') (rev fn))
      else [])"
    by (rule splitext_name)
  with assms show ?thesis
    by (simp add: file_extension_def)
qed

subsection \<open>The outcomes of the registry call and of a bytes setting\<close>

text \<open>
  Lines 144 to 148 as written: a registry call that returns \<^verbatim>\<open>None\<close> is answered with
  \<open>ImproperlyConfigured\<close>.
\<close>

lemma get_media_model_registry_none:
  assumes "s = a @ ''.'' @ n" and "count_list s (CHR ''.'') = 1"
    and "apps_get_model a n = Inr None"
  shows "get_media_model apps_get_model (Some (PyStr s)) = Inl ImproperlyConfigured"
  using assms(3) by (simp add: get_media_model_def split_setting_pair [OF assms(1,2)])

text \<open>Line 143 is outside the \<^verbatim>\<open>try\<close> block: what the registry call raises is let through.\<close>

lemma get_media_model_registry_raises:
  assumes "s = a @ ''.'' @ n" and "count_list s (CHR ''.'') = 1"
    and "apps_get_model a n = Inl e"
  shows "get_media_model apps_get_model (Some (PyStr s)) = Inl e"
  using assms(3) by (simp add: get_media_model_def split_setting_pair [OF assms(1,2)])

text \<open>
  A \<^verbatim>\<open>bytes\<close> setting has a \<^verbatim>\<open>split\<close> method, which refuses the \<^verbatim>\<open>str\<close> separator:
  the \<open>TypeError\<close> matches neither handler.
\<close>

lemma get_media_model_bytes:
  "get_media_model apps_get_model (Some (PyBytes b)) = Inl TypeError"
  by (simp add: get_media_model_def split_setting_def)

section \<open>Claims about get\_media\_model\<close>

text \<open>
  C2: a setting string with exactly one \<open>.\<close>, read as \<open>a.n\<close>, whose pair \<open>(a, n)\<close> the
  registry resolves to a class \<open>m\<close>, makes \<^verbatim>\<open>get_media_model\<close> return \<open>m\<close>.
\<close>

theorem get_media_model_registered:
  assumes "s = a @ ''.'' @ n"
    and "count_list s (CHR ''.'') = 1"
    and "apps_get_model a n = Inr (Some m)"
  shows "get_media_model apps_get_model (Some (PyStr s)) = Inr m"
  using assms(3) by (simp add: get_media_model_def split_setting_pair [OF assms(1,2)])

theorem get_media_model_registered_witness:
  "get_media_model
     (django_get_model host_registry)
     (Some (PyStr ''myapp.MyMedia'')) = Inr (HostModel ''myapp'' ''MyMedia'')"
  using get_media_model_registered
    [of "''myapp.MyMedia''" "''myapp''" "''MyMedia''"
        "django_get_model host_registry"
        "HostModel ''myapp'' ''MyMedia''"]
  by (simp add: django_get_model_def host_registry_def)

text \<open>
  C3: a setting string whose number of \<open>.\<close> separators is not one (none, or two or more)
  makes \<^verbatim>\<open>get_media_model\<close> raise \<open>ImproperlyConfigured\<close>, whatever the registry holds.
\<close>

theorem get_media_model_malformed:
  "count_list s (CHR ''.'') \<noteq> 1 \<Longrightarrow>
     get_media_model apps_get_model (Some (PyStr s)) = Inl ImproperlyConfigured"
  by (simp add: get_media_model_def split_setting_malformed)

theorem get_media_model_malformed_witness:
  "get_media_model (django_get_model host_registry) (Some (PyStr ''a.b.c'')) = Inl ImproperlyConfigured
   \<and> get_media_model (django_get_model host_registry) (Some (PyStr ''media'')) = Inl ImproperlyConfigured"
  using get_media_model_malformed [of "''a.b.c''" "django_get_model host_registry"]
    get_media_model_malformed [of "''media''" "django_get_model host_registry"]
  by simp

text \<open>
  C4, evaluated on the framework's registry: for the well-formed setting
  \<open>nosuchapp.Thing\<close> and a registry without that pair, the registry call raises
  \<open>LookupError\<close>, which \<^verbatim>\<open>get_media_model\<close> lets through; the check
  \<^verbatim>\<open>media_model is None\<close> is never reached.
\<close>

theorem get_media_model_unregistered_lookup_error:
  "get_media_model (django_get_model host_registry) (Some (PyStr ''nosuchapp.Thing'')) = Inl LookupError"
  by (simp add: get_media_model_def split_setting_def str_split_def django_get_model_def
      host_registry_def)

text \<open>
  C5: when the setting is absent, \<^verbatim>\<open>get_media_model\<close> returns the built-in \<open>Media\<close>.
\<close>

theorem get_media_model_absent:
  "get_media_model apps_get_model None = Inr Media"
  by (simp add: get_media_model_def split_setting_def)

theorem get_media_model_absent_witness:
  "get_media_model (django_get_model host_registry) None = Inr Media"
  using get_media_model_absent [of "django_get_model host_registry"] .

text \<open>
  C10: a setting that is present but holds a value without a \<^verbatim>\<open>split\<close> attribute
  (\<^verbatim>\<open>None\<close>, a boolean, an integer, a list) makes \<^verbatim>\<open>get_media_model\<close> return the
  built-in \<open>Media\<close> and raise nothing: the \<open>AttributeError\<close> handler of the absent
  setting catches it.
\<close>

theorem get_media_model_non_string:
  "\<not> has_split v \<Longrightarrow> get_media_model apps_get_model (Some v) = Inr Media"
  by (simp add: get_media_model_def split_setting_no_attribute)

theorem get_media_model_non_string_witness:
  "get_media_model (django_get_model host_registry) (Some (PyInt 42)) = Inr Media
   \<and> get_media_model (django_get_model host_registry) (Some PyNone) = Inr Media
   \<and> get_media_model (django_get_model host_registry) (Some (PyList [PyStr ''a.b''])) = Inr Media"
  using get_media_model_non_string [of "PyInt 42" "django_get_model host_registry"]
    get_media_model_non_string [of PyNone "django_get_model host_registry"]
    get_media_model_non_string [of "PyList [PyStr ''a.b'']" "django_get_model host_registry"]
  by simp

section \<open>Claims about the derived accessors\<close>

text \<open>
  C9: \<^verbatim>\<open>file_extension\<close> of a record whose file name is \<open>clip.mp4\<close> is \<open>mp4\<close>, and of a
  record whose file name has no extension, that is no dot after the dots it may begin
  with (\<open>README\<close>, \<open>.bashrc\<close>), it is the empty string.
\<close>

theorem file_extension_clip_and_none:
  "(filename self = Inr ''clip.mp4'' \<longrightarrow> file_extension self = Inr ''mp4'')
   \<and> (\<forall>fn. filename self = Inr fn
          \<and> CHR ''.'' \<notin> set (dropWhile (\<lambda>c. c = CHR ''.'') fn) \<longrightarrow>
        file_extension self = Inr '''')"
  by (simp add: file_extension_name)

theorem file_extension_clip_and_none_witness:
  "file_extension (media_of Media 1 (Some ''media/clip.mp4'') (Some '''')) = Inr ''mp4''
   \<and> file_extension (media_of Media 2 (Some ''media/README'') (Some '''')) = Inr ''''
   \<and> file_extension (media_of Media 3 (Some ''media/.bashrc'') (Some '''')) = Inr ''''"
proof -
  have f1: "filename (media_of Media 1 (Some ''media/clip.mp4'') (Some '''')) = Inr ''clip.mp4''"
    by (simp add: filename_def media_of_def basename_def rfind_def)
  have f2: "filename (media_of Media 2 (Some ''media/README'') (Some '''')) = Inr ''README''"
    by (simp add: filename_def media_of_def basename_def rfind_def)
  have f3: "filename (media_of Media 3 (Some ''media/.bashrc'') (Some '''')) = Inr ''.bashrc''"
    by (simp add: filename_def media_of_def basename_def rfind_def)
  from f1 f2 f3 show ?thesis
    using file_extension_clip_and_none [of "media_of Media 1 (Some ''media/clip.mp4'') (Some '''')"]
      file_extension_clip_and_none [of "media_of Media 2 (Some ''media/README'') (Some '''')"]
      file_extension_clip_and_none [of "media_of Media 3 (Some ''media/.bashrc'') (Some '''')"]
    by simp
qed

lemma sources_resolved:
  assumes "name (file_field self) = Some nm" and "nm \<noteq> []"
    and "storage_url nm = Inr (Some address)" and "address \<noteq> []"
  shows "sources storage_url reverse_index guess_type self =
           Inr [[(''src'', address),
                 (''type'', or_else (guess_type (basename nm)) ''application/octet-stream'')]]"
  using assms by (simp add: sources_def url_def fieldfile_bool_def filename_def)

lemma sources_fallback:
  assumes "name (file_field self) = Some nm" and "nm \<noteq> []"
    and "storage_url nm = Inr None \<or> storage_url nm = Inr (Some [])"
    and "reverse_index = Inr route"
  shows "sources storage_url reverse_index guess_type self =
           Inr [[(''src'', route),
                 (''type'', or_else (guess_type (basename nm)) ''application/octet-stream'')]]"
  using assms by (auto simp: sources_def url_def fieldfile_bool_def filename_def)

text \<open>
  C8, as the claim states its last part: a record with no file associated does not resolve
  to an address, and for it \<^verbatim>\<open>sources\<close> raises \<open>ValueError\<close> instead of answering with
  the index route.
\<close>

theorem sources_no_file_raises:
  "sources media_url (Inr ''/chunked_media/'') guess_mp3
     (media_of Media 1 (Some '''') (Some '''')) = Inl ValueError"
  by (simp add: sources_def url_def fieldfile_bool_def media_of_def media_url_def)

text \<open>
  C8, amended: for a record with a file associated, named \<open>nm\<close>: if the storage resolves
  \<open>nm\<close> to a non-empty address and the file name is \<open>song.mp3\<close>, guessed as
  \<open>audio/mpeg\<close>, then \<^verbatim>\<open>sources\<close> is the one-element sequence pairing that address with
  \<open>audio/mpeg\<close>; if the type of the file name is not recognised, the type is
  \<open>application/octet-stream\<close>; and if the storage answers with no address (\<^verbatim>\<open>None\<close> or
  the empty string), the address is the index route.
\<close>

theorem sources_entry:
  assumes "name (file_field self) = Some nm" and "nm \<noteq> []"
  shows
    "(basename nm = ''song.mp3'' \<and> guess_type ''song.mp3'' = Some ''audio/mpeg''
        \<and> storage_url nm = Inr (Some address) \<and> address \<noteq> [] \<longrightarrow>
      sources storage_url reverse_index guess_type self =
        Inr [[(''src'', address), (''type'', ''audio/mpeg'')]])
     \<and> (guess_type (basename nm) = None
        \<and> storage_url nm = Inr (Some address) \<and> address \<noteq> [] \<longrightarrow>
      sources storage_url reverse_index guess_type self =
        Inr [[(''src'', address), (''type'', ''application/octet-stream'')]])
     \<and> ((storage_url nm = Inr None \<or> storage_url nm = Inr (Some []))
        \<and> reverse_index = Inr route \<longrightarrow>
      sources storage_url reverse_index guess_type self =
        Inr [[(''src'', route),
              (''type'', or_else (guess_type (basename nm)) ''application/octet-stream'')]])"
proof (intro conjI impI)
  assume "basename nm = ''song.mp3'' \<and> guess_type ''song.mp3'' = Some ''audio/mpeg''
        \<and> storage_url nm = Inr (Some address) \<and> address \<noteq> []"
  then show "sources storage_url reverse_index guess_type self =
        Inr [[(''src'', address), (''type'', ''audio/mpeg'')]]"
    using sources_resolved [OF assms, of storage_url address reverse_index guess_type]
    by (simp add: or_else_def)
next
  assume "guess_type (basename nm) = None
        \<and> storage_url nm = Inr (Some address) \<and> address \<noteq> []"
  then show "sources storage_url reverse_index guess_type self =
        Inr [[(''src'', address), (''type'', ''application/octet-stream'')]]"
    using sources_resolved [OF assms, of storage_url address reverse_index guess_type]
    by (simp add: or_else_def)
next
  assume "(storage_url nm = Inr None \<or> storage_url nm = Inr (Some []))
        \<and> reverse_index = Inr route"
  then show "sources storage_url reverse_index guess_type self =
        Inr [[(''src'', route),
              (''type'', or_else (guess_type (basename nm)) ''application/octet-stream'')]]"
    using sources_fallback [OF assms, of storage_url reverse_index route guess_type]
    by simp
qed

theorem sources_entry_witness:
  "sources media_url (Inr ''/chunked_media/'')
      guess_mp3
      (media_of Media 1 (Some ''media/song.mp3'') (Some ''''))
     = Inr [[(''src'', ''/media/media/song.mp3''), (''type'', ''audio/mpeg'')]]
   \<and> sources media_url (Inr ''/chunked_media/'')
      guess_mp3
      (media_of Media 2 (Some ''media/data.xyz'') (Some ''''))
     = Inr [[(''src'', ''/media/media/data.xyz''), (''type'', ''application/octet-stream'')]]
   \<and> sources no_url (Inr ''/chunked_media/'')
      guess_mp3
      (media_of Media 1 (Some ''media/song.mp3'') (Some ''''))
     = Inr [[(''src'', ''/chunked_media/''), (''type'', ''audio/mpeg'')]]"
proof -
  have b1: "basename ''media/song.mp3'' = ''song.mp3''"
    by (simp add: basename_def rfind_def)
  have b2: "basename ''media/data.xyz'' = ''data.xyz''"
    by (simp add: basename_def rfind_def)
  have n1: "name (file_field (media_of Media 1 (Some ''media/song.mp3'') (Some ''''))) =
      Some ''media/song.mp3''"
    by (simp add: media_of_def)
  have n2: "name (file_field (media_of Media 2 (Some ''media/data.xyz'') (Some ''''))) =
      Some ''media/data.xyz''"
    by (simp add: media_of_def)
  note first = sources_entry [OF n1,
      where guess_type = "guess_mp3"
        and storage_url = "media_url"
        and address = "''/media/media/song.mp3''"
        and reverse_index = "Inr ''/chunked_media/''" and route = "''/chunked_media/''"]
  note second = sources_entry [OF n2,
      where guess_type = "guess_mp3"
        and storage_url = "media_url"
        and address = "''/media/media/data.xyz''"
        and reverse_index = "Inr ''/chunked_media/''" and route = "''/chunked_media/''"]
  note third = sources_entry [OF n1,
      where guess_type = "guess_mp3"
        and storage_url = "no_url"
        and address = "''''"
        and reverse_index = "Inr ''/chunked_media/''" and route = "''/chunked_media/''"]
  from first second third show ?thesis
    by (simp add: b1 b2 or_else_def media_url_def no_url_def guess_mp3_def)
qed

section \<open>Claims about the deletion hook\<close>

lemma media_of_model: "model (media_of cls k f t) = cls"
  by (simp add: media_of_def)

lemma media_of_pk: "pk (media_of cls k f t) = k"
  by (simp add: media_of_def)

lemma fieldfile_delete_set:
  assumes "name f = Some n" and "n \<noteq> []"
  shows "fieldfile_delete False owner f w =
           (if n \<in> undeletable w
            then (Some StorageError, f, w\<lparr>trace := trace w @ [StorageDelete n]\<rparr>)
            else (None, f\<lparr>name := None\<rparr>,
                  w\<lparr>stored := stored w - {n}, trace := trace w @ [StorageDelete n]\<rparr>))"
  using assms
  by (simp add: fieldfile_delete_def fieldfile_bool_def storage_delete_def Let_def)

lemma fieldfile_delete_unset:
  "\<not> fieldfile_bool f \<Longrightarrow> fieldfile_delete save owner f w = (None, f, w)"
  by (simp add: fieldfile_delete_def)

text \<open>
  C1: for a record with both \<^verbatim>\<open>file\<close> (named \<open>f\<close>) and \<^verbatim>\<open>thumbnail\<close> (named \<open>t\<close>) set,
  \<^verbatim>\<open>media_delete\<close> first asks the storage to delete \<open>f\<close> and then to delete \<open>t\<close>, and
  nothing else: when the storage raises on \<open>f\<close> the hook ends there, otherwise \<open>f\<close> is
  removed and \<open>t\<close> is attempted next; when neither raises, both resources are removed.
  The trace never gains a model-level save.
\<close>

theorem media_delete_file_then_thumbnail:
  assumes "name (file_field inst) = Some f" and "f \<noteq> []"
    and "name (thumbnail inst) = Some t" and "t \<noteq> []"
  shows "media_delete sender inst w =
     (if f \<in> undeletable w
      then (Some StorageError, inst, w\<lparr>trace := trace w @ [StorageDelete f]\<rparr>)
      else if t \<in> undeletable w
      then (Some StorageError, inst\<lparr>file_field := (file_field inst)\<lparr>name := None\<rparr>\<rparr>,
            w\<lparr>stored := stored w - {f},
              trace := trace w @ [StorageDelete f, StorageDelete t]\<rparr>)
      else (None,
            inst\<lparr>file_field := (file_field inst)\<lparr>name := None\<rparr>,
                 thumbnail := (thumbnail inst)\<lparr>name := None\<rparr>\<rparr>,
            w\<lparr>stored := stored w - {f} - {t},
              trace := trace w @ [StorageDelete f, StorageDelete t]\<rparr>))"
  by (simp add: media_delete_def fieldfile_delete_set [OF assms(1,2)]
      fieldfile_delete_set [OF assms(3,4)])

theorem media_delete_file_then_thumbnail_witness:
  "media_delete Media
     (media_of Media 1 (Some ''media/a.mp3'') (Some ''media_thumbnails/a.jpg''))
     \<lparr>stored = {''media/a.mp3'', ''media_thumbnails/a.jpg'', ''media/b.mp3''},
      undeletable = {}, rows = {(Media, 1)}, trace = []\<rparr>
   = (None, media_of Media 1 None None,
      \<lparr>stored = {''media/b.mp3''}, undeletable = {}, rows = {(Media, 1)},
       trace = [StorageDelete ''media/a.mp3'', StorageDelete ''media_thumbnails/a.jpg'']\<rparr>)
   \<and> media_delete Media
     (media_of Media 1 (Some ''media/a.mp3'') (Some ''media_thumbnails/a.jpg''))
     \<lparr>stored = {''media/a.mp3'', ''media_thumbnails/a.jpg''},
      undeletable = {''media/a.mp3''}, rows = {(Media, 1)}, trace = []\<rparr>
   = (Some StorageError,
      media_of Media 1 (Some ''media/a.mp3'') (Some ''media_thumbnails/a.jpg''),
      \<lparr>stored = {''media/a.mp3'', ''media_thumbnails/a.jpg''},
       undeletable = {''media/a.mp3''}, rows = {(Media, 1)},
       trace = [StorageDelete ''media/a.mp3'']\<rparr>)"
  using media_delete_file_then_thumbnail
    [of "media_of Media 1 (Some ''media/a.mp3'') (Some ''media_thumbnails/a.jpg'')"
        "''media/a.mp3''" "''media_thumbnails/a.jpg''" Media
        "\<lparr>stored = {''media/a.mp3'', ''media_thumbnails/a.jpg'', ''media/b.mp3''},
          undeletable = {}, rows = {(Media, 1)}, trace = []\<rparr>"]
    media_delete_file_then_thumbnail
    [of "media_of Media 1 (Some ''media/a.mp3'') (Some ''media_thumbnails/a.jpg'')"
        "''media/a.mp3''" "''media_thumbnails/a.jpg''" Media
        "\<lparr>stored = {''media/a.mp3'', ''media_thumbnails/a.jpg''},
          undeletable = {''media/a.mp3''}, rows = {(Media, 1)}, trace = []\<rparr>"]
  by (simp add: media_of_def)

text \<open>
  C7: for a record with \<^verbatim>\<open>file\<close> set (named \<open>f\<close>) and no thumbnail, \<^verbatim>\<open>media_delete\<close>
  asks the storage for one deletion only, that of \<open>f\<close>; no deletion is attempted for a
  thumbnail, and the thumbnail reference is left as it was.
\<close>

theorem media_delete_file_only:
  assumes "name (file_field inst) = Some f" and "f \<noteq> []"
    and "\<not> fieldfile_bool (thumbnail inst)"
  shows "media_delete sender inst w =
     (if f \<in> undeletable w
      then (Some StorageError, inst, w\<lparr>trace := trace w @ [StorageDelete f]\<rparr>)
      else (None, inst\<lparr>file_field := (file_field inst)\<lparr>name := None\<rparr>\<rparr>,
            w\<lparr>stored := stored w - {f}, trace := trace w @ [StorageDelete f]\<rparr>))"
  by (simp add: media_delete_def fieldfile_delete_set [OF assms(1,2)]
      fieldfile_delete_unset [OF assms(3)])

theorem media_delete_file_only_witness:
  "media_delete Media (media_of Media 1 (Some ''media/a.mp3'') (Some ''''))
     \<lparr>stored = {''media/a.mp3'', ''media_thumbnails/a.jpg''},
      undeletable = {}, rows = {(Media, 1)}, trace = []\<rparr>
   = (None, media_of Media 1 None (Some ''''),
      \<lparr>stored = {''media_thumbnails/a.jpg''}, undeletable = {}, rows = {(Media, 1)},
       trace = [StorageDelete ''media/a.mp3'']\<rparr>)"
  using media_delete_file_only
    [of "media_of Media 1 (Some ''media/a.mp3'') (Some '''')" "''media/a.mp3''" Media
        "\<lparr>stored = {''media/a.mp3'', ''media_thumbnails/a.jpg''},
          undeletable = {}, rows = {(Media, 1)}, trace = []\<rparr>"]
  by (simp add: media_of_def fieldfile_bool_def)

lemma send_parents_no_media:
  "Media \<notin> set cs \<Longrightarrow> send_parents cs inst w = (None, w)"
  by (induction cs) (simp_all add: pre_delete_receivers_def)

lemma send_parents_media_last:
  "Media \<notin> set cs \<Longrightarrow>
     send_parents (cs @ [Media]) inst w =
       (case media_delete Media (inst\<lparr>model := Media\<rparr>) w of
          (Some e, parent_obj, w') \<Rightarrow> (Some e, w')
        | (None, parent_obj, w') \<Rightarrow> (None, w'))"
  by (induction cs) (auto simp: pre_delete_receivers_def split: prod.splits option.splits)

lemma parents_of_media_last:
  "Media \<in> set (parents_of c) \<Longrightarrow> \<exists>cs. parents_of c = cs @ [Media] \<and> Media \<notin> set cs"
proof (induction c)
  case Media
  then show ?case by simp
next
  case (HostModel a n)
  then show ?case by simp
next
  case (HostChild a n parent)
  show ?case
  proof (cases "parent = Media")
    case True
    then have "parents_of (HostChild a n parent) = [] @ [Media]"
      by simp
    then show ?thesis by fastforce
  next
    case False
    with HostChild.prems have "Media \<in> set (parents_of parent)"
      by simp
    then obtain cs where cs: "parents_of parent = cs @ [Media]" "Media \<notin> set cs"
      using HostChild.IH by blast
    with False have "parents_of (HostChild a n parent) = (parent # cs) @ [Media]"
      and "Media \<notin> set (parent # cs)"
      by simp_all
    then show ?thesis by blast
  qed
qed

lemma model_delete_media:
  assumes "model inst = Media"
  shows "model_delete inst w =
     (case media_delete Media inst w of
        (Some e, inst', w') \<Rightarrow> (Some e, inst', w')
      | (None, inst', w') \<Rightarrow> (None, inst', remove_row Media (pk inst) w'))"
  using assms
  by (simp add: model_delete_def pre_delete_receivers_def split: prod.splits option.splits)

lemma model_delete_child_of_media:
  assumes "Media \<in> set (parents_of (model inst))"
  shows "model_delete inst w =
     (case media_delete Media (inst\<lparr>model := Media\<rparr>) w of
        (Some e, parent_obj, w') \<Rightarrow> (Some e, inst, w')
      | (None, parent_obj, w') \<Rightarrow>
          (None, inst, remove_rows (model inst # parents_of (model inst)) (pk inst) w'))"
proof -
  from assms have own: "model inst \<noteq> Media"
    by auto
  from assms obtain cs where cs: "parents_of (model inst) = cs @ [Media]" "Media \<notin> set cs"
    using parents_of_media_last by blast
  have "send_parents (parents_of (model inst)) inst w =
       (case media_delete Media (inst\<lparr>model := Media\<rparr>) w of
          (Some e, parent_obj, w') \<Rightarrow> (Some e, w')
        | (None, parent_obj, w') \<Rightarrow> (None, w'))"
    unfolding cs(1) by (rule send_parents_media_last [OF cs(2)])
  with own show ?thesis
    by (simp add: model_delete_def pre_delete_receivers_def split: prod.splits option.splits)
qed

lemma model_delete_unrelated:
  assumes "model inst \<noteq> Media" and "Media \<notin> set (parents_of (model inst))"
  shows "model_delete inst w =
     (None, inst, remove_rows (model inst # parents_of (model inst)) (pk inst) w)"
  using assms(1)
  by (simp add: model_delete_def pre_delete_receivers_def send_parents_no_media [OF assms(2)])

text \<open>
  C6, as the claim states it: with the setting \<open>myapp.MyMedia\<close> registered,
  \<^verbatim>\<open>get_media_model\<close> resolves the host's class, a concretisation of the abstract base,
  and deleting an instance of that class removes its row while \<^verbatim>\<open>media_delete\<close> is not
  called: no storage deletion is asked and both resources stay in the storage.
\<close>

theorem host_model_delete_skips_hook:
  "get_media_model
     (django_get_model host_registry)
     (Some (PyStr ''myapp.MyMedia'')) = Inr (HostModel ''myapp'' ''MyMedia'')
   \<and> model_delete
     (media_of (HostModel ''myapp'' ''MyMedia'') 7 (Some ''media/a.mp3'')
        (Some ''media_thumbnails/a.jpg''))
     \<lparr>stored = {''media/a.mp3'', ''media_thumbnails/a.jpg''},
      undeletable = {}, rows = {(HostModel ''myapp'' ''MyMedia'', 7)}, trace = []\<rparr>
   = (None,
      media_of (HostModel ''myapp'' ''MyMedia'') 7 (Some ''media/a.mp3'')
        (Some ''media_thumbnails/a.jpg''),
      \<lparr>stored = {''media/a.mp3'', ''media_thumbnails/a.jpg''},
       undeletable = {}, rows = {},
       trace = [RowRemoved (HostModel ''myapp'' ''MyMedia'') 7]\<rparr>)"
  by (simp add: get_media_model_def split_setting_def str_split_def django_get_model_def
      host_registry_def model_delete_def pre_delete_receivers_def remove_row_def media_of_def)

text \<open>
  C6, amended: deleting an instance whose class is the built-in \<open>Media\<close>, or inherits
  from it, runs \<^verbatim>\<open>media_delete\<close> first (for an inheriting class, on the parent
  \<open>Media\<close> row) and removes the rows right after the hook returns; an exception of the
  hook leaves the rows in place. Deleting an instance of a concrete type that neither is
  \<open>Media\<close> nor inherits from it removes the row with no call of the hook.
\<close>

theorem model_delete_dispatch:
  "(model inst = Media \<longrightarrow>
      model_delete inst w =
        (case media_delete Media inst w of
           (Some e, inst', w') \<Rightarrow> (Some e, inst', w')
         | (None, inst', w') \<Rightarrow> (None, inst', remove_row Media (pk inst) w')))
   \<and> (Media \<in> set (parents_of (model inst)) \<longrightarrow>
      model_delete inst w =
        (case media_delete Media (inst\<lparr>model := Media\<rparr>) w of
           (Some e, parent_obj, w') \<Rightarrow> (Some e, inst, w')
         | (None, parent_obj, w') \<Rightarrow>
             (None, inst, remove_rows (model inst # parents_of (model inst)) (pk inst) w')))
   \<and> (model inst \<noteq> Media \<and> Media \<notin> set (parents_of (model inst)) \<longrightarrow>
      model_delete inst w =
        (None, inst, remove_rows (model inst # parents_of (model inst)) (pk inst) w))"
  using model_delete_media [of inst w] model_delete_child_of_media [of inst w]
    model_delete_unrelated [of inst w]
  by blast

theorem model_delete_dispatch_witness:
  "model_delete
     (media_of Media 5 (Some ''media/a.mp3'') (Some ''media_thumbnails/a.jpg''))
     \<lparr>stored = {''media/a.mp3'', ''media_thumbnails/a.jpg''},
      undeletable = {}, rows = {(Media, 5)}, trace = []\<rparr>
   = (None, media_of Media 5 None None,
      \<lparr>stored = {}, undeletable = {}, rows = {},
       trace = [StorageDelete ''media/a.mp3'', StorageDelete ''media_thumbnails/a.jpg'',
                RowRemoved Media 5]\<rparr>)
   \<and> model_delete
     (media_of (HostChild ''myapp'' ''ChildMedia'' Media) 5 (Some ''media/a.mp3'')
        (Some ''media_thumbnails/a.jpg''))
     \<lparr>stored = {''media/a.mp3'', ''media_thumbnails/a.jpg''},
      undeletable = {},
      rows = {(HostChild ''myapp'' ''ChildMedia'' Media, 5), (Media, 5)}, trace = []\<rparr>
   = (None,
      media_of (HostChild ''myapp'' ''ChildMedia'' Media) 5 (Some ''media/a.mp3'')
        (Some ''media_thumbnails/a.jpg''),
      \<lparr>stored = {}, undeletable = {}, rows = {},
       trace = [StorageDelete ''media/a.mp3'', StorageDelete ''media_thumbnails/a.jpg'',
                RowRemoved (HostChild ''myapp'' ''ChildMedia'' Media) 5,
                RowRemoved Media 5]\<rparr>)
   \<and> model_delete
     (media_of (HostModel ''myapp'' ''MyMedia'') 7 (Some ''media/a.mp3'') (Some ''''))
     \<lparr>stored = {''media/a.mp3''}, undeletable = {},
      rows = {(HostModel ''myapp'' ''MyMedia'', 7)}, trace = []\<rparr>
   = (None, media_of (HostModel ''myapp'' ''MyMedia'') 7 (Some ''media/a.mp3'') (Some ''''),
      \<lparr>stored = {''media/a.mp3''}, undeletable = {}, rows = {},
       trace = [RowRemoved (HostModel ''myapp'' ''MyMedia'') 7]\<rparr>)"
proof -
  have hook: "media_delete Media
     (media_of Media 5 (Some ''media/a.mp3'') (Some ''media_thumbnails/a.jpg'')) w
   = (None, media_of Media 5 None None,
      w\<lparr>stored := stored w - {''media/a.mp3''} - {''media_thumbnails/a.jpg''},
        trace := trace w @
          [StorageDelete ''media/a.mp3'', StorageDelete ''media_thumbnails/a.jpg'']\<rparr>)"
    if "undeletable w = {}" for w
    using that
    by (simp add: media_delete_def fieldfile_delete_def fieldfile_bool_def storage_delete_def
        media_of_def Let_def)
  have parent_obj:
    "(media_of (HostChild ''myapp'' ''ChildMedia'' Media) 5 (Some ''media/a.mp3'')
        (Some ''media_thumbnails/a.jpg''))\<lparr>model := Media\<rparr>
     = media_of Media 5 (Some ''media/a.mp3'') (Some ''media_thumbnails/a.jpg'')"
    by (simp add: media_of_def)
  have first: "model_delete
     (media_of Media 5 (Some ''media/a.mp3'') (Some ''media_thumbnails/a.jpg''))
     \<lparr>stored = {''media/a.mp3'', ''media_thumbnails/a.jpg''},
      undeletable = {}, rows = {(Media, 5)}, trace = []\<rparr>
   = (None, media_of Media 5 None None,
      \<lparr>stored = {}, undeletable = {}, rows = {},
       trace = [StorageDelete ''media/a.mp3'', StorageDelete ''media_thumbnails/a.jpg'',
                RowRemoved Media 5]\<rparr>)"
    using model_delete_dispatch
      [of "media_of Media 5 (Some ''media/a.mp3'') (Some ''media_thumbnails/a.jpg'')"
          "\<lparr>stored = {''media/a.mp3'', ''media_thumbnails/a.jpg''},
            undeletable = {}, rows = {(Media, 5)}, trace = []\<rparr>"]
    by (simp add: hook remove_row_def media_of_model media_of_pk)
  have second: "model_delete
     (media_of (HostChild ''myapp'' ''ChildMedia'' Media) 5 (Some ''media/a.mp3'')
        (Some ''media_thumbnails/a.jpg''))
     \<lparr>stored = {''media/a.mp3'', ''media_thumbnails/a.jpg''},
      undeletable = {},
      rows = {(HostChild ''myapp'' ''ChildMedia'' Media, 5), (Media, 5)}, trace = []\<rparr>
   = (None,
      media_of (HostChild ''myapp'' ''ChildMedia'' Media) 5 (Some ''media/a.mp3'')
        (Some ''media_thumbnails/a.jpg''),
      \<lparr>stored = {}, undeletable = {}, rows = {},
       trace = [StorageDelete ''media/a.mp3'', StorageDelete ''media_thumbnails/a.jpg'',
                RowRemoved (HostChild ''myapp'' ''ChildMedia'' Media) 5,
                RowRemoved Media 5]\<rparr>)"
    using model_delete_dispatch
      [of "media_of (HostChild ''myapp'' ''ChildMedia'' Media) 5 (Some ''media/a.mp3'')
             (Some ''media_thumbnails/a.jpg'')"
          "\<lparr>stored = {''media/a.mp3'', ''media_thumbnails/a.jpg''},
            undeletable = {},
            rows = {(HostChild ''myapp'' ''ChildMedia'' Media, 5), (Media, 5)}, trace = []\<rparr>"]
    by (simp add: parent_obj hook remove_row_def media_of_model media_of_pk)
  have third: "model_delete
     (media_of (HostModel ''myapp'' ''MyMedia'') 7 (Some ''media/a.mp3'') (Some ''''))
     \<lparr>stored = {''media/a.mp3''}, undeletable = {},
      rows = {(HostModel ''myapp'' ''MyMedia'', 7)}, trace = []\<rparr>
   = (None, media_of (HostModel ''myapp'' ''MyMedia'') 7 (Some ''media/a.mp3'') (Some ''''),
      \<lparr>stored = {''media/a.mp3''}, undeletable = {}, rows = {},
       trace = [RowRemoved (HostModel ''myapp'' ''MyMedia'') 7]\<rparr>)"
    using model_delete_dispatch
      [of "media_of (HostModel ''myapp'' ''MyMedia'') 7 (Some ''media/a.mp3'') (Some '''')"
          "\<lparr>stored = {''media/a.mp3''}, undeletable = {},
            rows = {(HostModel ''myapp'' ''MyMedia'', 7)}, trace = []\<rparr>"]
    by (simp add: remove_row_def media_of_model media_of_pk)
  from first second third show ?thesis
    by blast
qed

end
